theory Spec2Isabelle
  imports Complex_Main "HOL-Library.AList"
begin

section \<open>Python values\<close>

text \<open>
  Token records are duck-typed Python dictionaries, and the pipeline is also handed
  values that are no dictionary at all (the test suite passes \<open>None\<close>). A value is
  therefore one of the shapes below. A dictionary is an association list in insertion
  order with string keys; a number keeps its exact value: an \<open>int\<close> is unbounded, a
  finite \<open>float\<close> is the rational it denotes, and the three special floats are
  separate constructors. Python compares \<open>int\<close> and \<open>float\<close> by exact value, so
  comparing the rationals is what the interpreter does.
\<close>

datatype pyval =
    PNone
  | PBool bool
  | PInt int
  | PFloat rat
  | PInf
  | PNegInf
  | PNaN
  | PStr string
  | PList "pyval list"
  | PDict "(string \<times> pyval) list"

text \<open>The exceptions the modelled code can meet.\<close>

datatype exn = KeyError | TypeError | AttributeError | ApiError

type_synonym pydict = "(string \<times> pyval) list"

text \<open>\<open>d.get(key, default)\<close> and \<open>d[key]\<close> on a dictionary.\<close>

definition dict_get :: "pydict \<Rightarrow> string \<Rightarrow> pyval \<Rightarrow> pyval" where
  "dict_get d k dflt = (case map_of d k of None \<Rightarrow> dflt | Some v \<Rightarrow> v)"

definition dict_item :: "pydict \<Rightarrow> string \<Rightarrow> exn + pyval" where
  "dict_item d k = (case map_of d k of None \<Rightarrow> Inl KeyError | Some v \<Rightarrow> Inr v)"

text \<open>
  \<open>value.get(key, default)\<close> on any value: only a dictionary has the method, every
  other shape raises \<open>AttributeError\<close>.
\<close>

fun py_get :: "pyval \<Rightarrow> string \<Rightarrow> pyval \<Rightarrow> exn + pyval" where
  "py_get (PDict d) k dflt = Inr (dict_get d k dflt)"
| "py_get _ k dflt = Inl AttributeError"

text \<open>
  \<open>value[key]\<close> with a string key: a missing key of a dictionary is a \<open>KeyError\<close>,
  and no other shape can be subscripted by a string (\<open>TypeError\<close>).
\<close>

fun py_item :: "pyval \<Rightarrow> string \<Rightarrow> exn + pyval" where
  "py_item (PDict d) k = dict_item d k"
| "py_item _ k = Inl TypeError"

text \<open>Truth value testing (\<open>if x\<close>, \<open>not x\<close>, \<open>x or y\<close>).\<close>

fun truthy :: "pyval \<Rightarrow> bool" where
  "truthy PNone = False"
| "truthy (PBool b) = b"
| "truthy (PInt i) = (i \<noteq> 0)"
| "truthy (PFloat r) = (r \<noteq> 0)"
| "truthy PInf = True"
| "truthy PNegInf = True"
| "truthy PNaN = True"
| "truthy (PStr s) = (s \<noteq> [])"
| "truthy (PList xs) = (xs \<noteq> [])"
| "truthy (PDict d) = (d \<noteq> [])"

text \<open>
  \<open>value > c\<close> and \<open>value < c\<close> against a numeric literal \<open>c\<close>. \<open>bool\<close> is a
  subclass of \<open>int\<close>; every comparison with NaN is false; comparing \<open>None\<close>, a
  string, a list or a dictionary with a number raises \<open>TypeError\<close>.
\<close>

fun py_gt :: "pyval \<Rightarrow> rat \<Rightarrow> exn + bool" where
  "py_gt (PBool b) c = Inr ((if b then 1 else 0) > c)"
| "py_gt (PInt i) c = Inr (of_int i > c)"
| "py_gt (PFloat r) c = Inr (r > c)"
| "py_gt PInf c = Inr True"
| "py_gt PNegInf c = Inr False"
| "py_gt PNaN c = Inr False"
| "py_gt _ c = Inl TypeError"

fun py_lt :: "pyval \<Rightarrow> rat \<Rightarrow> exn + bool" where
  "py_lt (PBool b) c = Inr ((if b then 1 else 0) < c)"
| "py_lt (PInt i) c = Inr (of_int i < c)"
| "py_lt (PFloat r) c = Inr (r < c)"
| "py_lt PInf c = Inr False"
| "py_lt PNegInf c = Inr True"
| "py_lt PNaN c = Inr False"
| "py_lt _ c = Inl TypeError"

text \<open>
  The literal \<open>0.1\<close> is the double nearest to one tenth, which is slightly above it:
  \<open>3602879701896397 / 2^55\<close>. The literals \<open>0\<close>, \<open>1\<close>, \<open>2\<close>, \<open>1000\<close> and \<open>0.5\<close>
  are exact.
\<close>

definition float_0_1 :: rat where
  "float_0_1 = 3602879701896397 / 36028797018963968"

section \<open>VolumeAnalyzer\<close>

text \<open>
  The body of the \<open>try\<close> block of \<open>analyze_volume\<close>: the list of the five checks,
  evaluated left to right, or the first exception. Both copies of the function (the
  script and the package module) build the same list.
\<close>

definition volume_checks :: "pyval \<Rightarrow> exn + bool list" where
  "volume_checks volume_data =
     (case volume_data of
        PDict d \<Rightarrow>
          (case py_gt (dict_get d ''total_volume'' (PInt 0)) 1000 of
             Inl e \<Rightarrow> Inl e
           | Inr c1 \<Rightarrow>
          (case py_gt (dict_get d ''1h_volume'' (PInt 0)) 0 of
             Inl e \<Rightarrow> Inl e
           | Inr c2 \<Rightarrow>
          (case py_gt (dict_get d ''24h_volume'' (PInt 0)) 0 of
             Inl e \<Rightarrow> Inl e
           | Inr c3 \<Rightarrow>
          (case py_gt (dict_get d ''volume_liquidity_ratio'' (PInt 0)) float_0_1 of
             Inl e \<Rightarrow> Inl e
           | Inr c4 \<Rightarrow>
          (case py_lt (dict_get d ''volume_spike_ratio'' (PInt 1)) 2 of
             Inl e \<Rightarrow> Inl e
           | Inr c5 \<Rightarrow> Inr [c1, c2, c3, c4, c5])))))
      | _ \<Rightarrow> Inl AttributeError)"

text \<open>\<open>sum(checks)\<close> counts the true entries; \<open>/\<close> is true division.\<close>

definition sum_checks :: "bool list \<Rightarrow> nat" where
  "sum_checks checks = length (filter (\<lambda>c. c) checks)"

text \<open>
  \<open>analyze_volume\<close> of the package module (\<open>volume_analyzer .py\<close>): the quotient, or
  \<open>0.0\<close> from the \<open>except\<close> branch. The score is kept as the exact quotient; the
  double the interpreter returns is that quotient correctly rounded, which compares
  with \<open>0.5\<close> the same way.
\<close>

definition analyze_volume :: "pyval \<Rightarrow> rat" where
  "analyze_volume volume_data =
     (case volume_checks volume_data of
        Inl e \<Rightarrow> 0
      | Inr checks \<Rightarrow> of_nat (sum_checks checks) / of_nat (length checks))"

text \<open>
  \<open>analyze_volume\<close> of the script (\<open>crypto-filter-script.py\<close>), which clamps the
  score with \<open>max(0, min(1, legitimacy_score))\<close> before returning it. (At the two
  bounds \<open>max\<close> and \<open>min\<close> hand back the \<open>int\<close> bound, which is the same number.)
\<close>

definition analyze_volume_script :: "pyval \<Rightarrow> rat" where
  "analyze_volume_script volume_data =
     (case volume_checks volume_data of
        Inl e \<Rightarrow> 0
      | Inr checks \<Rightarrow>
          (let legitimacy_score = of_nat (sum_checks checks) / of_nat (length checks)
           in max 0 (min 1 legitimacy_score)))"

text \<open>
  The scorer as the specification words it, over the five numbers of a VolumeMetrics
  value: five equally weighted checks, the score is the share that holds.
\<close>

definition score_spec :: "rat \<Rightarrow> rat \<Rightarrow> rat \<Rightarrow> rat \<Rightarrow> rat \<Rightarrow> rat" where
  "score_spec total_volume volume_1h volume_24h liquidity_ratio spike_ratio =
     of_nat (sum_checks
       [total_volume > 1000, volume_1h > 0, volume_24h > 0,
        liquidity_ratio > float_0_1, spike_ratio < 2]) / 5"

text \<open>A finite number, and the number a field holds or its default when absent.\<close>

fun num_val :: "pyval \<Rightarrow> rat option" where
  "num_val (PBool b) = Some (if b then 1 else 0)"
| "num_val (PInt i) = Some (of_int i)"
| "num_val (PFloat r) = Some r"
| "num_val _ = None"

definition field_num :: "pydict \<Rightarrow> string \<Rightarrow> rat \<Rightarrow> rat option" where
  "field_num d k dflt = (case map_of d k of None \<Rightarrow> Some dflt | Some v \<Rightarrow> num_val v)"

section \<open>Lowercasing\<close>

text \<open>
  \<open>str.lower()\<close> on the characters a \<open>char\<close> can hold (code points 0 to 255): the
  ASCII capitals and the Latin-1 capitals (192 to 222 without the multiplication sign
  215) move up by 32, every other character stays.
\<close>

definition lower_char :: "char \<Rightarrow> char" where
  "lower_char c =
     (let n = (of_char c :: nat)
      in if (65 \<le> n \<and> n \<le> 90) \<or> (192 \<le> n \<and> n \<le> 222 \<and> n \<noteq> 215)
         then char_of (n + 32) else c)"

definition lower :: "string \<Rightarrow> string" where
  "lower s = map lower_char s"

text \<open>\<open>address.lower()\<close> on any value: only a string has the method.\<close>

fun py_lower :: "pyval \<Rightarrow> exn + string" where
  "py_lower (PStr s) = Inr (lower s)"
| "py_lower _ = Inl AttributeError"

section \<open>BlacklistManager\<close>

text \<open>
  The manager owns the dictionary \<open>self.blacklists\<close> (category name to set of
  addresses) and a YAML file on disk. The model keeps both, whether the file can be
  written, and the lines the module's logger received. A file is missing, unreadable
  (any exception but \<open>FileNotFoundError\<close> while opening or parsing), or a document
  that maps top-level keys to lists of strings; a list is kept as the set of its
  entries, which is all that \<open>set(...)\<close> on loading and \<open>list(...)\<close> on saving
  preserve.
\<close>

datatype level = DEBUG | INFO | WARNING | ERROR

type_synonym logs = "(level \<times> string) list"

datatype yaml_file = Missing | Corrupt | Doc "string \<Rightarrow> string set option"

record manager =
  blacklists :: "string \<Rightarrow> string set option"
  disk :: yaml_file
  writable :: bool
  manager_log :: logs

definition empty_blacklists :: "string \<Rightarrow> string set option" where
  "empty_blacklists =
     [''tokens'' \<mapsto> {}, ''developers'' \<mapsto> {}, ''contracts'' \<mapsto> {}, ''domains'' \<mapsto> {}]"

text \<open>\<open>set(data.get(key, []))\<close>.\<close>

definition entries :: "(string \<Rightarrow> string set option) \<Rightarrow> string \<Rightarrow> string set" where
  "entries data k = (case data k of None \<Rightarrow> {} | Some xs \<Rightarrow> xs)"

definition load_blacklists :: "yaml_file \<Rightarrow> (string \<Rightarrow> string set option) \<times> logs" where
  "load_blacklists f =
     (case f of
        Doc data \<Rightarrow>
          ([''tokens'' \<mapsto> entries data ''tokens'',
            ''developers'' \<mapsto> entries data ''developers'',
            ''contracts'' \<mapsto> entries data ''contracts'',
            ''domains'' \<mapsto> entries data ''domains''], [])
      | Missing \<Rightarrow>
          (empty_blacklists, [(INFO, ''Blacklist file not found. Creating new blacklists.'')])
      | Corrupt \<Rightarrow>
          (empty_blacklists, [(ERROR, ''Error loading blacklists'')]))"

text \<open>\<open>__init__\<close>: remember the file and load it.\<close>

definition BlacklistManager_init :: "yaml_file \<Rightarrow> bool \<Rightarrow> manager" where
  "BlacklistManager_init f w =
     \<lparr>blacklists = fst (load_blacklists f), disk = f, writable = w,
      manager_log = snd (load_blacklists f)\<rparr>"

definition manager_logs :: "level \<Rightarrow> string \<Rightarrow> manager \<Rightarrow> manager" where
  "manager_logs l msg m = m\<lparr>manager_log := manager_log m @ [(l, msg)]\<rparr>"

text \<open>
  \<open>_save_blacklists\<close>: rewrite the whole file from the dictionary; a failure is
  logged and swallowed, the file then stays as it was.
\<close>

definition save_blacklists :: "manager \<Rightarrow> manager" where
  "save_blacklists m =
     (if writable m
      then manager_logs DEBUG ''Blacklists saved successfully'' (m\<lparr>disk := Doc (blacklists m)\<rparr>)
      else manager_logs ERROR ''Error saving blacklists'' m)"

text \<open>
  \<open>add_to_blacklist\<close>. The two guards return early; \<open>address.lower()\<close> is evaluated
  before the set is touched, so an exception leaves the manager as it was.
\<close>

definition add_to_blacklist :: "manager \<Rightarrow> string \<Rightarrow> pyval \<Rightarrow> exn + manager" where
  "add_to_blacklist m blacklist_type address =
     (if \<not> truthy address
      then Inr (manager_logs WARNING ''Attempted to add empty address to blacklist'' m)
      else (case blacklists m blacklist_type of
              None \<Rightarrow> Inr (manager_logs WARNING ''Invalid blacklist type'' m)
            | Some members \<Rightarrow>
                (case py_lower address of
                   Inl e \<Rightarrow> Inl e
                 | Inr a \<Rightarrow>
                     Inr (manager_logs INFO ''Added address to blacklist''
                       (save_blacklists
                          (m\<lparr>blacklists := (blacklists m)(blacklist_type \<mapsto> insert a members)\<rparr>))))))"

definition remove_from_blacklist :: "manager \<Rightarrow> string \<Rightarrow> pyval \<Rightarrow> exn + manager" where
  "remove_from_blacklist m blacklist_type address =
     (case blacklists m blacklist_type of
        None \<Rightarrow> Inr (manager_logs WARNING ''Invalid blacklist type'' m)
      | Some members \<Rightarrow>
          (case py_lower address of
             Inl e \<Rightarrow> Inl e
           | Inr a \<Rightarrow>
               Inr (manager_logs INFO ''Removed address from blacklist''
                 (save_blacklists
                    (m\<lparr>blacklists := (blacklists m)(blacklist_type \<mapsto> members - {a})\<rparr>)))))"

text \<open>\<open>is_blacklisted\<close>: the answer (or the exception) and the manager with its log.\<close>

definition is_blacklisted :: "manager \<Rightarrow> string \<Rightarrow> pyval \<Rightarrow> (exn + bool) \<times> manager" where
  "is_blacklisted m blacklist_type address =
     (case blacklists m blacklist_type of
        None \<Rightarrow> (Inr False, manager_logs WARNING ''Invalid blacklist type'' m)
      | Some members \<Rightarrow>
          (case py_lower address of
             Inl e \<Rightarrow> (Inl e, m)
           | Inr a \<Rightarrow> (Inr (a \<in> members), m)))"

definition get_blacklist :: "manager \<Rightarrow> string \<Rightarrow> string set" where
  "get_blacklist m blacklist_type =
     (case blacklists m blacklist_type of None \<Rightarrow> {} | Some members \<Rightarrow> members)"

definition clear_blacklist :: "manager \<Rightarrow> string \<Rightarrow> manager" where
  "clear_blacklist m blacklist_type =
     (case blacklists m blacklist_type of
        None \<Rightarrow> m
      | Some members \<Rightarrow>
          manager_logs INFO ''Cleared blacklist''
            (save_blacklists (m\<lparr>blacklists := (blacklists m)(blacklist_type \<mapsto> {})\<rparr>)))"

text \<open>
  The states a manager can be in: freshly constructed over any file, then any
  sequence of add, remove and clear calls that returned.
\<close>

inductive manager_reachable :: "manager \<Rightarrow> bool" where
  loaded: "manager_reachable (BlacklistManager_init f w)"
| added: "manager_reachable m \<Longrightarrow> add_to_blacklist m c a = Inr m' \<Longrightarrow> manager_reachable m'"
| removed: "manager_reachable m \<Longrightarrow> remove_from_blacklist m c a = Inr m' \<Longrightarrow> manager_reachable m'"
| cleared: "manager_reachable m \<Longrightarrow> manager_reachable (clear_blacklist m c)"

section \<open>ContractRisk, ContractAnalysis and the RugCheck classifier\<close>

datatype ContractRisk = SAFE | LOW_RISK | MEDIUM_RISK | HIGH_RISK | DANGEROUS

text \<open>The member's \<open>.name\<close>, and the lookup \<open>ContractRisk[name]\<close>.\<close>

fun risk_name :: "ContractRisk \<Rightarrow> string" where
  "risk_name SAFE = ''SAFE''"
| "risk_name LOW_RISK = ''LOW_RISK''"
| "risk_name MEDIUM_RISK = ''MEDIUM_RISK''"
| "risk_name HIGH_RISK = ''HIGH_RISK''"
| "risk_name DANGEROUS = ''DANGEROUS''"

definition risk_of_name :: "string \<Rightarrow> exn + ContractRisk" where
  "risk_of_name n =
     (if n = ''SAFE'' then Inr SAFE
      else if n = ''LOW_RISK'' then Inr LOW_RISK
      else if n = ''MEDIUM_RISK'' then Inr MEDIUM_RISK
      else if n = ''HIGH_RISK'' then Inr HIGH_RISK
      else if n = ''DANGEROUS'' then Inr DANGEROUS
      else Inl KeyError)"

text \<open>
  \<open>ContractRisk[v]\<close> for any value: a string is looked up by name, a list or a
  dictionary cannot be hashed, anything else is no member name.
\<close>

fun py_risk :: "pyval \<Rightarrow> exn + ContractRisk" where
  "py_risk (PStr n) = risk_of_name n"
| "py_risk (PList xs) = Inl TypeError"
| "py_risk (PDict d) = Inl TypeError"
| "py_risk _ = Inl KeyError"

text \<open>
  The dataclass does not check its field types, so the fields filled from a response
  hold whatever value the response has.
\<close>

record ContractAnalysis =
  token_address :: pyval
  risk_level :: ContractRisk
  is_honeypot :: pyval
  is_verified :: pyval
  is_bundled :: pyval
  volume_legitimacy_score :: rat
  potential_issues :: pyval

text \<open>\<open>ContractAnalysis(token_address=a)\<close>: every other field at its declared default.\<close>

definition ContractAnalysis_default :: "pyval \<Rightarrow> ContractAnalysis" where
  "ContractAnalysis_default a =
     \<lparr>token_address = a, risk_level = HIGH_RISK, is_honeypot = PBool False,
      is_verified = PBool False, is_bundled = PBool False,
      volume_legitimacy_score = 0, potential_issues = PList []\<rparr>"

text \<open>The response the simulated API call of \<open>check_contract\<close> builds.\<close>

definition mock_response :: "pyval \<Rightarrow> pydict" where
  "mock_response a =
     [(''token_address'', a), (''risk_level'', PStr ''LOW_RISK''),
      (''is_honeypot'', PBool False), (''is_verified'', PBool True),
      (''is_bundled'', PBool False), (''potential_issues'', PList [])]"

text \<open>
  The \<open>return ContractAnalysis(...)\<close> of the \<open>try\<close> block: the keyword arguments are
  evaluated in order, each subscript can raise \<open>KeyError\<close>.
\<close>

definition analysis_of_response :: "pyval \<Rightarrow> pydict \<Rightarrow> exn + ContractAnalysis" where
  "analysis_of_response a response =
     (case dict_item response ''risk_level'' of
        Inl e \<Rightarrow> Inl e
      | Inr name \<Rightarrow>
     (case py_risk name of
        Inl e \<Rightarrow> Inl e
      | Inr risk \<Rightarrow>
     (case dict_item response ''is_honeypot'' of
        Inl e \<Rightarrow> Inl e
      | Inr honeypot \<Rightarrow>
     (case dict_item response ''is_verified'' of
        Inl e \<Rightarrow> Inl e
      | Inr verified \<Rightarrow>
     (case dict_item response ''is_bundled'' of
        Inl e \<Rightarrow> Inl e
      | Inr bundled \<Rightarrow>
     (case dict_item response ''potential_issues'' of
        Inl e \<Rightarrow> Inl e
      | Inr issues \<Rightarrow>
          Inr \<lparr>token_address = a, risk_level = risk, is_honeypot = honeypot,
               is_verified = verified, is_bundled = bundled,
               volume_legitimacy_score = 0, potential_issues = issues\<rparr>))))))"

text \<open>
  The \<open>try\<close> block of \<open>check_contract\<close> over the API call it stands for (the source
  marks the place: "In real scenario, replace with actual API request"): the call
  returns a response or raises.
\<close>

definition check_contract_try :: "(pyval \<Rightarrow> exn + pydict) \<Rightarrow> pyval \<Rightarrow> exn + ContractAnalysis" where
  "check_contract_try api_request a =
     (case api_request a of
        Inl e \<Rightarrow> Inl e
      | Inr response \<Rightarrow> analysis_of_response a response)"

text \<open>
  \<open>check_contract\<close> with its \<open>except Exception\<close> branch: the analysis, and the lines
  it logged.
\<close>

definition check_contract_with ::
    "(pyval \<Rightarrow> exn + pydict) \<Rightarrow> pyval \<Rightarrow> ContractAnalysis \<times> logs" where
  "check_contract_with api_request a =
     (case check_contract_try api_request a of
        Inr analysis \<Rightarrow> (analysis, [])
      | Inl e \<Rightarrow> (ContractAnalysis_default a, [(ERROR, ''RugCheck API error'')]))"

text \<open>\<open>RugCheckAPI.check_contract\<close> as the script has it, on the simulated response.\<close>

definition check_contract :: "pyval \<Rightarrow> ContractAnalysis \<times> logs" where
  "check_contract a = check_contract_with (\<lambda>a. Inr (mock_response a)) a"

section \<open>The hard-cutoff pipeline (crypto-filter-script.py)\<close>

text \<open>
  What one analysis can change: the blacklist manager, the logger, and the trace of
  calls to the risk lookups (kept so that "the classifier was not invoked" can be
  stated). The script constructs a \<open>BlacklistManager\<close> without defining or importing
  one; the manager here is the class of \<open>blacklist_manager.py\<close>.
\<close>

datatype call = CheckContract pyval | ApiAnalyzeToken pyval | ValidateToken string pyval

record filter_state =
  blacklist_manager :: manager
  logger :: logs
  calls :: "call list"

definition logs_line :: "level \<Rightarrow> string \<Rightarrow> filter_state \<Rightarrow> filter_state" where
  "logs_line l msg st = st\<lparr>logger := logger st @ [(l, msg)]\<rparr>"

definition called :: "call \<Rightarrow> filter_state \<Rightarrow> filter_state" where
  "called c st = st\<lparr>calls := calls st @ [c]\<rparr>"

text \<open>The \<open>volume_data\<close> dictionary both pipelines build from the token record.\<close>

definition volume_data_of :: "pydict \<Rightarrow> pyval" where
  "volume_data_of token_data =
     PDict
       [(''total_volume'', dict_get token_data ''volume'' (PInt 0)),
        (''1h_volume'', dict_get token_data ''volume_1h'' (PInt 0)),
        (''24h_volume'', dict_get token_data ''volume_24h'' (PInt 0)),
        (''volume_liquidity_ratio'', dict_get token_data ''volume_liquidity_ratio'' (PInt 0)),
        (''volume_spike_ratio'', dict_get token_data ''volume_spike'' (PInt 1))]"

definition suspicious_volume :: "level \<times> string" where
  "suspicious_volume = (WARNING, ''Suspicious volume detected'')"

definition security_concerns :: "level \<times> string" where
  "security_concerns = (WARNING, ''Token blacklisted due to security concerns'')"

text \<open>
  The \<open>try\<close> block of \<open>perform_comprehensive_analysis\<close>. The filter's two
  collaborators are parameters: \<open>volume_analyzer\<close> is \<open>self.volume_analyzer.analyze_volume\<close>
  and \<open>rugcheck\<close> is \<open>self.rugcheck_api.check_contract\<close>, which returns an analysis or
  raises. The result is the returned value (\<open>None\<close> or the enriched dictionary) or the
  exception, with the state reached by then: what was written before an exception
  stays written.
\<close>

definition enhanced_token_data :: "pydict \<Rightarrow> rat \<Rightarrow> ContractAnalysis \<Rightarrow> pydict" where
  "enhanced_token_data token_data volume_score contract_analysis =
     AList.update ''contract_risk_level'' (PStr (risk_name (risk_level contract_analysis)))
       (AList.update ''volume_legitimacy_score'' (PFloat volume_score) token_data)"

definition analysis_try ::
    "(pyval \<Rightarrow> rat) \<Rightarrow> (pyval \<Rightarrow> exn + ContractAnalysis) \<Rightarrow> pyval \<Rightarrow> filter_state
      \<Rightarrow> (exn + pydict option) \<times> filter_state" where
  "analysis_try volume_analyzer rugcheck token st =
     (case token of
        PDict token_data \<Rightarrow>
          (let volume_score = volume_analyzer (volume_data_of token_data)
           in if volume_score < 1/2
              then (Inr None, st\<lparr>logger := logger st @ [suspicious_volume]\<rparr>)
              else
                (case dict_item token_data ''address'' of
                   Inl e \<Rightarrow> (Inl e, st)
                 | Inr address \<Rightarrow>
                     (let st1 = called (CheckContract address) st
                      in case rugcheck address of
                           Inl e \<Rightarrow> (Inl e, st1)
                         | Inr contract_analysis \<Rightarrow>
                             if truthy (is_bundled contract_analysis) \<or>
                                risk_level contract_analysis \<in> set [HIGH_RISK, DANGEROUS]
                             then
                               (case add_to_blacklist (blacklist_manager st1) ''tokens'' address of
                                  Inl e \<Rightarrow> (Inl e, st1)
                                | Inr m1 \<Rightarrow>
                                    (case add_to_blacklist m1 ''developers''
                                            (dict_get token_data ''developer_address'' (PStr [])) of
                                       Inl e \<Rightarrow> (Inl e, st1\<lparr>blacklist_manager := m1\<rparr>)
                                     | Inr m2 \<Rightarrow>
                                         (Inr None,
                                          st1\<lparr>blacklist_manager := m2,
                                              logger := logger st1 @ [security_concerns]\<rparr>)))
                             else
                               (Inr (Some (enhanced_token_data token_data volume_score
                                             contract_analysis)), st1))))
      | _ \<Rightarrow> (Inl AttributeError, st))"

text \<open>
  \<open>perform_comprehensive_analysis\<close>: the \<open>try\<close> block under its
  \<open>except Exception\<close>, which logs and returns \<open>None\<close>.
\<close>

definition perform_comprehensive_analysis ::
    "(pyval \<Rightarrow> rat) \<Rightarrow> (pyval \<Rightarrow> exn + ContractAnalysis) \<Rightarrow> pyval \<Rightarrow> filter_state
      \<Rightarrow> pydict option \<times> filter_state" where
  "perform_comprehensive_analysis volume_analyzer rugcheck token st =
     (case analysis_try volume_analyzer rugcheck token st of
        (Inr result, st') \<Rightarrow> (result, st')
      | (Inl e, st') \<Rightarrow> (None, logs_line ERROR ''Comprehensive analysis error'' st'))"

text \<open>\<open>if analyzed_token: verified_tokens.append(analyzed_token)\<close>.\<close>

definition append_if_truthy :: "pydict list \<Rightarrow> pydict option \<Rightarrow> pydict list" where
  "append_if_truthy verified_tokens analyzed_token =
     (case analyzed_token of
        None \<Rightarrow> verified_tokens
      | Some d \<Rightarrow> if truthy (PDict d) then verified_tokens @ [d] else verified_tokens)"



text \<open>The script's own collaborators: its clamped scorer and its simulated classifier.\<close>

definition script_rugcheck :: "pyval \<Rightarrow> exn + ContractAnalysis" where
  "script_rugcheck a = Inr (fst (check_contract a))"

section \<open>The advisory pipeline (crypto_security.py and api_integrations.py)\<close>

text \<open>
  \<open>APIManager.analyze_token\<close>: every registered client is asked in turn; a client that
  raises is logged and recorded as \<open>{'error': str(e)}\<close>. A client is its
  \<open>validate_token\<close>, which returns a value or raises.
\<close>

type_synonym api_client = "pyval \<Rightarrow> exn + pyval"

fun exn_str :: "exn \<Rightarrow> string" where
  "exn_str KeyError = ''KeyError''"
| "exn_str TypeError = ''TypeError''"
| "exn_str AttributeError = ''AttributeError''"
| "exn_str ApiError = ''ApiError''"

fun api_loop ::
    "(string \<times> api_client) list \<Rightarrow> pyval \<Rightarrow> pydict \<Rightarrow> filter_state \<Rightarrow> pydict \<times> filter_state" where
  "api_loop [] a results st = (results, st)"
| "api_loop ((api_name, api_client) # rest) a results st =
     (let st1 = called (ValidateToken api_name a) st
      in case api_client a of
           Inr r \<Rightarrow> api_loop rest a (AList.update api_name r results) st1
         | Inl e \<Rightarrow>
             api_loop rest a
               (AList.update api_name (PDict [(''error'', PStr (exn_str e))]) results)
               (logs_line ERROR ''Error analyzing token with API'' st1))"

definition api_manager_analyze_token ::
    "(string \<times> api_client) list \<Rightarrow> pyval \<Rightarrow> filter_state \<Rightarrow> pydict \<times> filter_state" where
  "api_manager_analyze_token apis a st = api_loop apis a [] (called (ApiAnalyzeToken a) st)"

text \<open>\<open>_initialize_apis\<close> registers no client.\<close>

definition initialize_apis :: "(string \<times> api_client) list" where
  "initialize_apis = []"

text \<open>\<open>_calculate_risk_level\<close>.\<close>

definition calculate_risk_level :: "pydict \<Rightarrow> rat \<Rightarrow> ContractRisk" where
  "calculate_risk_level api_results volume_score = MEDIUM_RISK"

definition analysis_result :: "pydict \<Rightarrow> pydict \<Rightarrow> rat \<Rightarrow> pydict" where
  "analysis_result token_data api_results volume_score =
     AList.update ''risk_level''
       (PStr (risk_name (calculate_risk_level api_results volume_score)))
       (AList.update ''volume_score'' (PFloat volume_score)
          (AList.update ''api_analysis'' (PDict api_results) token_data))"

text \<open>
  The \<open>try\<close> block of \<open>analyze_token\<close>: the API manager is asked first, on
  \<open>token_data['address']\<close>, and the volume is scored afterwards.
\<close>

definition analyze_token_try ::
    "(string \<times> api_client) list \<Rightarrow> (pyval \<Rightarrow> rat) \<Rightarrow> pyval \<Rightarrow> filter_state
      \<Rightarrow> (exn + pydict option) \<times> filter_state" where
  "analyze_token_try apis volume_analyzer token st =
     (case py_item token ''address'' of
        Inl e \<Rightarrow> (Inl e, st)
      | Inr address \<Rightarrow>
          (case api_manager_analyze_token apis address st of
             (api_results, st1) \<Rightarrow>
               (case token of
                  PDict token_data \<Rightarrow>
                    (let volume_score = volume_analyzer (volume_data_of token_data)
                     in if volume_score < 1/2
                        then (Inr None, st1\<lparr>logger := logger st1 @ [suspicious_volume]\<rparr>)
                        else (Inr (Some (analysis_result token_data api_results volume_score)),
                              st1))
                | _ \<Rightarrow> (Inl AttributeError, st1))))"

text \<open>
  \<open>analyze_token\<close>: the handler formats its message with
  \<open>token_data.get('address', 'N/A')\<close>, which itself raises when the token is no
  dictionary; that exception leaves the function.
\<close>

definition analyze_token ::
    "(string \<times> api_client) list \<Rightarrow> (pyval \<Rightarrow> rat) \<Rightarrow> pyval \<Rightarrow> filter_state
      \<Rightarrow> (exn + pydict option) \<times> filter_state" where
  "analyze_token apis volume_analyzer token st =
     (case analyze_token_try apis volume_analyzer token st of
        (Inr result, st') \<Rightarrow> (Inr result, st')
      | (Inl e, st') \<Rightarrow>
          (case py_get token ''address'' (PStr ''N/A'') of
             Inl e' \<Rightarrow> (Inl e', st')
           | Inr shown \<Rightarrow> (Inr None, logs_line ERROR ''Error analyzing token'' st')))"

text \<open>\<open>analyze_tokens\<close>: the loop stops at the first exception that reaches it.\<close>

fun analyze_loop ::
    "(string \<times> api_client) list \<Rightarrow> (pyval \<Rightarrow> rat) \<Rightarrow> pyval list \<Rightarrow> pydict list
      \<Rightarrow> filter_state \<Rightarrow> (exn + pydict list) \<times> filter_state" where
  "analyze_loop apis volume_analyzer [] verified_tokens st = (Inr verified_tokens, st)"
| "analyze_loop apis volume_analyzer (token # rest) verified_tokens st =
     (case analyze_token apis volume_analyzer token st of
        (Inl e, st') \<Rightarrow> (Inl e, st')
      | (Inr analyzed_token, st') \<Rightarrow>
          analyze_loop apis volume_analyzer rest
            (append_if_truthy verified_tokens analyzed_token) st')"

definition analyze_tokens ::
    "(string \<times> api_client) list \<Rightarrow> (pyval \<Rightarrow> rat) \<Rightarrow> pyval list \<Rightarrow> filter_state
      \<Rightarrow> (exn + pydict list) \<times> filter_state" where
  "analyze_tokens apis volume_analyzer tokens_data st =
     analyze_loop apis volume_analyzer tokens_data [] st"

section \<open>Fixtures and derived notions\<close>


fun is_dict :: "pyval \<Rightarrow> bool" where
  "is_dict (PDict d) = True"
| "is_dict _ = False"


text \<open>
  The two token records of \<open>test_filter_tokens\<close>, and a filter as its constructor
  leaves it: a manager loaded from the file, nothing logged, nothing called.
\<close>

definition good_token :: pydict where
  "good_token =
     [(''address'', PStr ''0x123token_address''), (''symbol'', PStr ''GOOD''),
      (''volume'', PInt 5000), (''volume_1h'', PInt 500), (''volume_24h'', PInt 10000),
      (''volume_liquidity_ratio'', PFloat (1/5)), (''volume_spike'', PFloat (3/2))]"

definition bad_token :: pydict where
  "bad_token =
     [(''address'', PStr ''0x456token_address''), (''symbol'', PStr ''BAD''),
      (''volume'', PInt 100), (''volume_1h'', PInt 0), (''volume_24h'', PInt 0),
      (''volume_liquidity_ratio'', PFloat (1/20)), (''volume_spike'', PInt 3)]"

definition CryptoSecurityFilter_init :: "yaml_file \<Rightarrow> bool \<Rightarrow> filter_state" where
  "CryptoSecurityFilter_init f w =
     \<lparr>blacklist_manager = BlacklistManager_init f w, logger = [], calls = []\<rparr>"

text \<open>
  The four category names, a classifier stub that answers every address with the
  fail-closed default analysis (\<open>HIGH_RISK\<close>, not bundled), and token records that
  pass the volume check with four checks of five.
\<close>

definition categories :: "string list" where
  "categories = [''tokens'', ''developers'', ''contracts'', ''domains'']"

definition high_risk_stub :: "pyval \<Rightarrow> exn + ContractAnalysis" where
  "high_risk_stub a = Inr (ContractAnalysis_default a)"

definition empty_address_token :: pydict where
  "empty_address_token =
     [(''address'', PStr []), (''symbol'', PStr ''TEST''), (''volume'', PInt 5000),
      (''volume_1h'', PInt 500), (''volume_24h'', PInt 10000)]"

definition numeric_address_token :: pydict where
  "numeric_address_token =
     [(''address'', PInt 5), (''symbol'', PStr ''TEST''), (''volume'', PInt 5000),
      (''volume_1h'', PInt 500), (''volume_24h'', PInt 10000)]"

definition risky_token :: pydict where
  "risky_token =
     [(''address'', PStr ''0xaaa''), (''symbol'', PStr ''TEST''), (''volume'', PInt 5000),
      (''volume_1h'', PInt 500), (''volume_24h'', PInt 10000)]"


text \<open>
  A blacklist file whose only entry is written in mixed case, an API request that
  fails, and one that answers with a risk level the enumeration does not have.
\<close>

definition mixed_case_file :: yaml_file where
  "mixed_case_file = Doc [''tokens'' \<mapsto> {''0xABC''}]"

definition failing_request :: "pyval \<Rightarrow> exn + pydict" where
  "failing_request a = Inl ApiError"

definition unknown_risk_request :: "pyval \<Rightarrow> exn + pydict" where
  "unknown_risk_request a =
     Inr [(''token_address'', a), (''risk_level'', PStr ''CRITICAL''),
          (''is_honeypot'', PBool True), (''is_verified'', PBool False),
          (''is_bundled'', PBool True), (''potential_issues'', PList [PStr ''mint'']) ]"

text \<open>
  The calls that change a manager, run in sequence; a call that raises leaves the
  manager as it was. A manager or a file is lowercase when every stored entry is its
  own lowercasing.
\<close>

datatype manager_op = Add string pyval | Remove string pyval | Clear string

fun apply_op :: "manager \<Rightarrow> manager_op \<Rightarrow> manager" where
  "apply_op m (Add c a) = (case add_to_blacklist m c a of Inl e \<Rightarrow> m | Inr m' \<Rightarrow> m')"
| "apply_op m (Remove c a) = (case remove_from_blacklist m c a of Inl e \<Rightarrow> m | Inr m' \<Rightarrow> m')"
| "apply_op m (Clear c) = clear_blacklist m c"

fun run_ops :: "manager \<Rightarrow> manager_op list \<Rightarrow> manager" where
  "run_ops m [] = m"
| "run_ops m (x # xs) = run_ops (apply_op m x) xs"

definition lowercase_entries :: "(string \<Rightarrow> string set option) \<Rightarrow> bool" where
  "lowercase_entries bl \<longleftrightarrow> (\<forall>c S a. bl c = Some S \<and> a \<in> S \<longrightarrow> lower a = a)"

definition lowercase_file :: "yaml_file \<Rightarrow> bool" where
  "lowercase_file f \<longleftrightarrow> (case f of Doc data \<Rightarrow> lowercase_entries data | _ \<Rightarrow> True)"

section \<open>The volume score\<close>

lemma volume_checks_length: "volume_checks vd = Inr cs \<Longrightarrow> length cs = 5"
  by (auto simp: volume_checks_def split: pyval.splits sum.splits)

lemma sum_checks_le: "sum_checks cs \<le> length cs"
  by (simp add: sum_checks_def)

lemma fifths:
  assumes "n \<le> (5::nat)"
  shows "(of_nat n :: rat) / 5 \<in> {0, 1/5, 2/5, 3/5, 4/5, 1}"
proof -
  from assms have "n = 0 \<or> n = 1 \<or> n = 2 \<or> n = 3 \<or> n = 4 \<or> n = 5" by arith
  then show ?thesis by auto
qed

lemma analyze_volume_script_eq: "analyze_volume_script vd = analyze_volume vd"
proof (cases "volume_checks vd")
  case (Inl e)
  then show ?thesis by (simp add: analyze_volume_script_def analyze_volume_def)
next
  case (Inr cs)
  have len: "length cs = 5" using Inr by (rule volume_checks_length)
  have "sum_checks cs \<le> 5" using sum_checks_le [of cs] len by simp
  then have "(of_nat (sum_checks cs) :: rat) / 5 \<le> 1" by simp
  moreover have "0 \<le> (of_nat (sum_checks cs) :: rat) / 5" by simp
  ultimately show ?thesis
    using Inr len by (simp add: analyze_volume_script_def analyze_volume_def Let_def)
qed

lemma analyze_volume_range: "analyze_volume vd \<in> {0, 1/5, 2/5, 3/5, 4/5, 1}"
proof (cases "volume_checks vd")
  case (Inl e)
  then show ?thesis by (simp add: analyze_volume_def)
next
  case (Inr cs)
  have len: "length cs = 5" using Inr by (rule volume_checks_length)
  have "sum_checks cs \<le> 5" using sum_checks_le [of cs] len by simp
  then have "(of_nat (sum_checks cs) :: rat) / 5 \<in> {0, 1/5, 2/5, 3/5, 4/5, 1}" by (rule fifths)
  then show ?thesis using Inr len by (simp add: analyze_volume_def)
qed

lemma py_gt_num: "num_val v = Some r \<Longrightarrow> py_gt v c = Inr (r > c)"
  by (cases v) auto

lemma py_lt_num: "num_val v = Some r \<Longrightarrow> py_lt v c = Inr (r < c)"
  by (cases v) auto

lemma field_gt:
  "field_num d k (of_int i) = Some r \<Longrightarrow> py_gt (dict_get d k (PInt i)) c = Inr (r > c)"
  by (auto simp: field_num_def dict_get_def py_gt_num split: option.splits)

lemma field_lt:
  "field_num d k (of_int i) = Some r \<Longrightarrow> py_lt (dict_get d k (PInt i)) c = Inr (r < c)"
  by (auto simp: field_num_def dict_get_def py_lt_num split: option.splits)

lemma volume_checks_numeric:
  assumes "field_num d ''total_volume'' 0 = Some tv"
    and "field_num d ''1h_volume'' 0 = Some h1"
    and "field_num d ''24h_volume'' 0 = Some h24"
    and "field_num d ''volume_liquidity_ratio'' 0 = Some lr"
    and "field_num d ''volume_spike_ratio'' 1 = Some sr"
  shows "volume_checks (PDict d) = Inr [tv > 1000, h1 > 0, h24 > 0, lr > float_0_1, sr < 2]"
  using field_gt [of d "''total_volume''" 0 tv 1000]
    field_gt [of d "''1h_volume''" 0 h1 0]
    field_gt [of d "''24h_volume''" 0 h24 0]
    field_gt [of d "''volume_liquidity_ratio''" 0 lr float_0_1]
    field_lt [of d "''volume_spike_ratio''" 1 sr 2] assms
  by (simp add: volume_checks_def)

text \<open>
  Claim C3. For every value handed to \<open>analyze_volume\<close> (either copy), the result
  is one of 0, 1/5, 2/5, 3/5, 4/5, 1. When the five comparisons can all be made, there
  are exactly five checks and the result is the number of true ones over five; on
  numeric fields these are the five checks of the specification, an absent field
  taking its default (volumes 0, liquidity ratio 0, spike ratio 1). When a comparison
  raises, or the argument is no dictionary, the result is 0. The function is total:
  it returns a score and never an exception.
\<close>

theorem analyze_volume_score:
  "analyze_volume vd \<in> {0, 1/5, 2/5, 3/5, 4/5, 1} \<and>
   analyze_volume_script vd = analyze_volume vd \<and>
   (\<forall>cs. volume_checks vd = Inr cs \<longrightarrow>
      length cs = 5 \<and> analyze_volume vd = of_nat (sum_checks cs) / 5) \<and>
   (\<forall>e. volume_checks vd = Inl e \<longrightarrow> analyze_volume vd = 0) \<and>
   (\<forall>d tv h1 h24 lr sr.
      vd = PDict d \<and>
      field_num d ''total_volume'' 0 = Some tv \<and>
      field_num d ''1h_volume'' 0 = Some h1 \<and>
      field_num d ''24h_volume'' 0 = Some h24 \<and>
      field_num d ''volume_liquidity_ratio'' 0 = Some lr \<and>
      field_num d ''volume_spike_ratio'' 1 = Some sr \<longrightarrow>
      analyze_volume vd = score_spec tv h1 h24 lr sr)"
proof (intro conjI allI impI)
  show "analyze_volume vd \<in> {0, 1/5, 2/5, 3/5, 4/5, 1}"
    by (rule analyze_volume_range)
  show "analyze_volume_script vd = analyze_volume vd"
    by (rule analyze_volume_script_eq)
next
  fix cs assume "volume_checks vd = Inr cs"
  then show "length cs = 5" by (rule volume_checks_length)
next
  fix cs assume cs: "volume_checks vd = Inr cs"
  then have "length cs = 5" by (rule volume_checks_length)
  with cs show "analyze_volume vd = of_nat (sum_checks cs) / 5"
    by (simp add: analyze_volume_def)
next
  fix e assume "volume_checks vd = Inl e"
  then show "analyze_volume vd = 0" by (simp add: analyze_volume_def)
next
  fix d tv h1 h24 lr sr
  assume "vd = PDict d \<and>
      field_num d ''total_volume'' 0 = Some tv \<and>
      field_num d ''1h_volume'' 0 = Some h1 \<and>
      field_num d ''24h_volume'' 0 = Some h24 \<and>
      field_num d ''volume_liquidity_ratio'' 0 = Some lr \<and>
      field_num d ''volume_spike_ratio'' 1 = Some sr"
  then have "vd = PDict d"
    and "volume_checks (PDict d) = Inr [tv > 1000, h1 > 0, h24 > 0, lr > float_0_1, sr < 2]"
    by (simp_all add: volume_checks_numeric)
  then show "analyze_volume vd = score_spec tv h1 h24 lr sr"
    by (simp add: analyze_volume_def score_spec_def)
qed

theorem analyze_volume_score_witness:
  "analyze_volume
     (PDict [(''total_volume'', PInt 2000), (''1h_volume'', PInt 0),
             (''24h_volume'', PInt 500), (''volume_liquidity_ratio'', PFloat (1/5)),
             (''volume_spike_ratio'', PFloat 3)]) = 3/5 \<and>
   analyze_volume (PDict []) = 1/5 \<and>
   volume_checks (PDict [(''total_volume'', PNone)]) = Inl TypeError \<and>
   analyze_volume (PDict [(''total_volume'', PNone)]) = 0 \<and>
   volume_checks PNone = Inl AttributeError \<and>
   analyze_volume_script PNone = 0"
proof -
  have a: "analyze_volume
     (PDict [(''total_volume'', PInt 2000), (''1h_volume'', PInt 0),
             (''24h_volume'', PInt 500), (''volume_liquidity_ratio'', PFloat (1/5)),
             (''volume_spike_ratio'', PFloat 3)]) = score_spec 2000 0 500 (1/5) 3"
    using analyze_volume_score
      [of "PDict [(''total_volume'', PInt 2000), (''1h_volume'', PInt 0),
             (''24h_volume'', PInt 500), (''volume_liquidity_ratio'', PFloat (1/5)),
             (''volume_spike_ratio'', PFloat 3)]"]
    by (simp add: field_num_def)
  have b: "analyze_volume (PDict []) = score_spec 0 0 0 0 1"
    using analyze_volume_score [of "PDict []"] by (simp add: field_num_def)
  have c: "volume_checks (PDict [(''total_volume'', PNone)]) = Inl TypeError"
    by (simp add: volume_checks_def dict_get_def)
  have d: "volume_checks PNone = Inl AttributeError"
    by (simp add: volume_checks_def)
  have e: "analyze_volume (PDict [(''total_volume'', PNone)]) = 0"
    using analyze_volume_score [of "PDict [(''total_volume'', PNone)]"] c by simp
  have f: "analyze_volume_script PNone = 0"
    using analyze_volume_score [of PNone] d by simp
  show ?thesis using a b c d e f
    by (simp add: score_spec_def sum_checks_def float_0_1_def)
qed

section \<open>The test fixtures evaluated\<close>

lemmas value_defs = dict_get_def dict_item_def float_0_1_def sum_checks_def
lemmas volume_defs = volume_checks_def analyze_volume_def analyze_volume_script_def volume_data_of_def

lemma good_token_score:
  "analyze_volume (volume_data_of good_token) = 1"
  "analyze_volume_script (volume_data_of good_token) = 1"
  by (simp_all add: good_token_def volume_defs value_defs)

lemma bad_token_score:
  "analyze_volume (volume_data_of bad_token) = 0"
  "analyze_volume_script (volume_data_of bad_token) = 0"
  by (simp_all add: bad_token_def volume_defs value_defs)

lemma partial_scores:
  "analyze_volume_script (volume_data_of risky_token) = 4/5"
  "analyze_volume_script (volume_data_of empty_address_token) = 4/5"
  "analyze_volume_script (volume_data_of numeric_address_token) = 4/5"
  by (simp_all add: risky_token_def empty_address_token_def numeric_address_token_def
      volume_defs value_defs)

lemma good_token_address: "dict_item good_token ''address'' = Inr (PStr ''0x123token_address'')"
  by (simp add: good_token_def dict_item_def)


lemma check_contract_low_risk:
  "check_contract a =
     (\<lparr>token_address = a, risk_level = LOW_RISK, is_honeypot = PBool False,
       is_verified = PBool True, is_bundled = PBool False,
       volume_legitimacy_score = 0, potential_issues = PList []\<rparr>, [])"
  by (simp add: check_contract_def check_contract_with_def check_contract_try_def
      analysis_of_response_def mock_response_def dict_item_def risk_of_name_def)

lemma lower_0xaaa: "lower ''0xaaa'' = ''0xaaa''"
  by (simp add: lower_def lower_char_def)

lemma lower_0xABC: "lower ''0xABC'' = ''0xabc''"
  by code_simp

section \<open>The hard-cutoff pipeline, case by case\<close>


lemma dict_item_update: "dict_item (AList.update k v al) k = Inr v"
  by (simp add: dict_item_def update_conv')

lemma pca_volume_reject:
  "va (volume_data_of d) < 1/2 \<Longrightarrow>
   perform_comprehensive_analysis va rc (PDict d) st =
     (None, st\<lparr>logger := logger st @ [suspicious_volume]\<rparr>)"
  by (simp add: perform_comprehensive_analysis_def analysis_try_def)

lemma pca_not_dict:
  "\<not> is_dict t \<Longrightarrow>
   perform_comprehensive_analysis va rc t st =
     (None, logs_line ERROR ''Comprehensive analysis error'' st)"
  by (cases t) (simp_all add: perform_comprehensive_analysis_def analysis_try_def)






lemma pca_manager_changed:
  assumes "blacklist_manager (snd (perform_comprehensive_analysis va rc t st)) \<noteq>
           blacklist_manager st"
  shows "\<exists>d a ca. t = PDict d \<and> 1/2 \<le> va (volume_data_of d) \<and>
           dict_item d ''address'' = Inr a \<and> rc a = Inr ca \<and>
           (truthy (is_bundled ca) \<or> risk_level ca \<in> set [HIGH_RISK, DANGEROUS])"
proof (cases t)
  case (PDict d)
  show ?thesis
  proof (cases "va (volume_data_of d) < 1/2")
    case True
    then show ?thesis using assms unfolding PDict by (simp add: pca_volume_reject)
  next
    case False
    show ?thesis
    proof (cases "dict_item d ''address''")
      case (Inl e)
      then show ?thesis using assms False unfolding PDict
        by (simp add: perform_comprehensive_analysis_def analysis_try_def logs_line_def)
    next
      case (Inr a)
      show ?thesis
      proof (cases "rc a")
        case (Inl e)
        then show ?thesis using assms False Inr unfolding PDict
          by (simp add: perform_comprehensive_analysis_def analysis_try_def logs_line_def
              called_def)
      next
        case ca: (Inr ca)
        show ?thesis
        proof (cases "truthy (is_bundled ca) \<or> risk_level ca \<in> set [HIGH_RISK, DANGEROUS]")
          case True
          then show ?thesis using False Inr ca unfolding PDict by auto
        next
          case no: False
          then show ?thesis using assms False Inr ca unfolding PDict
            by (simp add: perform_comprehensive_analysis_def analysis_try_def called_def)
        qed
      qed
    qed
  qed
qed (use assms in \<open>simp_all add: pca_not_dict logs_line_def\<close>)

section \<open>The advisory pipeline, case by case\<close>


lemma api_loop_manager:
  "blacklist_manager (snd (api_loop apis a results st)) = blacklist_manager st"
proof (induction apis a results st rule: api_loop.induct)
  case (1 a results st)
  show ?case by simp
next
  case (2 api_name api_client rest a results st)
  show ?case
  proof (cases "api_client a")
    case (Inr r)
    then show ?thesis
      using "2.IH"(2) [OF refl Inr] by (simp add: called_def Let_def)
  next
    case (Inl e)
    then show ?thesis
      using "2.IH"(1) [OF refl Inl] by (simp add: called_def logs_line_def Let_def)
  qed
qed






lemma analyze_token_no_address:
  "dict_item d ''address'' = Inl e \<Longrightarrow>
   analyze_token apis va (PDict d) st =
     (Inr None, logs_line ERROR ''Error analyzing token'' st)"
  by (simp add: analyze_token_def analyze_token_try_def)

lemma analyze_token_reject:
  assumes "dict_item d ''address'' = Inr a" and "va (volume_data_of d) < 1/2"
  shows "analyze_token apis va (PDict d) st =
     (Inr None,
      (snd (api_manager_analyze_token apis a st))
        \<lparr>logger := logger (snd (api_manager_analyze_token apis a st)) @ [suspicious_volume]\<rparr>)"
proof -
  obtain r st1 where r: "api_manager_analyze_token apis a st = (r, st1)"
    by (cases "api_manager_analyze_token apis a st")
  show ?thesis using assms r
    by (simp add: analyze_token_def analyze_token_try_def)
qed

lemma analyze_token_accept:
  assumes "dict_item d ''address'' = Inr a" and "\<not> va (volume_data_of d) < 1/2"
  shows "analyze_token apis va (PDict d) st =
     (Inr (Some (analysis_result d (fst (api_manager_analyze_token apis a st))
                   (va (volume_data_of d)))),
      snd (api_manager_analyze_token apis a st))"
proof -
  obtain r st1 where r: "api_manager_analyze_token apis a st = (r, st1)"
    by (cases "api_manager_analyze_token apis a st")
  show ?thesis using assms r
    by (simp add: analyze_token_def analyze_token_try_def)
qed

lemma analyze_token_not_dict:
  "\<not> is_dict t \<Longrightarrow> analyze_token apis va t st = (Inl AttributeError, st)"
  by (cases t) (simp_all add: analyze_token_def analyze_token_try_def)



lemma analyze_token_Some_result:
  assumes "fst (analyze_token apis va t st) = Inr (Some out)"
  shows "\<exists>d api_results. t = PDict d \<and>
           out = analysis_result d api_results (va (volume_data_of d))"
proof (cases t)
  case (PDict d)
  show ?thesis
  proof (cases "dict_item d ''address''")
    case (Inl e)
    then show ?thesis using assms unfolding PDict by (simp add: analyze_token_no_address)
  next
    case (Inr a)
    show ?thesis
    proof (cases "va (volume_data_of d) < 1/2")
      case True
      with Inr show ?thesis using assms unfolding PDict by (simp add: analyze_token_reject)
    next
      case False
      with Inr show ?thesis using assms unfolding PDict
        by (auto simp: analyze_token_accept)
    qed
  qed
qed (use assms in \<open>simp_all add: analyze_token_not_dict\<close>)


section \<open>The volume threshold\<close>






section \<open>Volume rejection and the classifier\<close>




section \<open>Volume rejection leaves the blacklist alone\<close>

text \<open>
  Claim C10. When the volume score is below 0.5, \<open>perform_comprehensive_analysis\<close>
  returns \<open>None\<close> and the blacklist manager is the same afterwards: the category
  sets, the file on disk, and everything else it holds. Conversely, whenever a call
  changes the manager, the token passed the volume check and the classifier returned
  a bundled or HIGH_RISK/DANGEROUS analysis for its address.
\<close>

theorem volume_reject_leaves_blacklist:
  "(va (volume_data_of d) < 1/2 \<longrightarrow>
      fst (perform_comprehensive_analysis va rc (PDict d) st) = None \<and>
      blacklists (blacklist_manager (snd (perform_comprehensive_analysis va rc (PDict d) st))) =
        blacklists (blacklist_manager st) \<and>
      disk (blacklist_manager (snd (perform_comprehensive_analysis va rc (PDict d) st))) =
        disk (blacklist_manager st) \<and>
      blacklist_manager (snd (perform_comprehensive_analysis va rc (PDict d) st)) =
        blacklist_manager st) \<and>
   (blacklist_manager (snd (perform_comprehensive_analysis va rc t st)) \<noteq> blacklist_manager st
      \<longrightarrow> (\<exists>d a ca. t = PDict d \<and> 1/2 \<le> va (volume_data_of d) \<and>
             dict_item d ''address'' = Inr a \<and> rc a = Inr ca \<and>
             (truthy (is_bundled ca) \<or> risk_level ca \<in> set [HIGH_RISK, DANGEROUS])))"
  using pca_manager_changed [of va rc t st] by (simp add: pca_volume_reject)

theorem volume_reject_leaves_blacklist_witness:
  "analyze_volume_script (volume_data_of bad_token) < 1/2 \<and>
   fst (perform_comprehensive_analysis analyze_volume_script script_rugcheck (PDict bad_token)
          (CryptoSecurityFilter_init Missing True)) = None \<and>
   blacklists (blacklist_manager
      (snd (perform_comprehensive_analysis analyze_volume_script script_rugcheck
              (PDict bad_token) (CryptoSecurityFilter_init Missing True)))) = empty_blacklists \<and>
   disk (blacklist_manager
      (snd (perform_comprehensive_analysis analyze_volume_script script_rugcheck
              (PDict bad_token) (CryptoSecurityFilter_init Missing True)))) = Missing"
proof -
  have low: "analyze_volume_script (volume_data_of bad_token) < 1/2"
    by (simp add: bad_token_score)
  show ?thesis
    using low volume_reject_leaves_blacklist
      [of analyze_volume_script bad_token script_rugcheck "CryptoSecurityFilter_init Missing True"]
    by (simp add: CryptoSecurityFilter_init_def BlacklistManager_init_def load_blacklists_def)
qed

section \<open>Rejection for security concerns\<close>

lemma save_blacklists_blacklists [simp]: "blacklists (save_blacklists m) = blacklists m"
  by (simp add: save_blacklists_def manager_logs_def)

lemma manager_logs_blacklists [simp]: "blacklists (manager_logs l msg m) = blacklists m"
  by (simp add: manager_logs_def)

lemma add_to_blacklist_dom:
  "add_to_blacklist m c a = Inr m' \<Longrightarrow> dom (blacklists m') = dom (blacklists m)"
  by (auto simp: add_to_blacklist_def split: if_splits option.splits sum.splits)

lemma remove_from_blacklist_dom:
  "remove_from_blacklist m c a = Inr m' \<Longrightarrow> dom (blacklists m') = dom (blacklists m)"
  by (auto simp: remove_from_blacklist_def split: option.splits sum.splits if_splits)

lemma clear_blacklist_dom: "dom (blacklists (clear_blacklist m c)) = dom (blacklists m)"
  by (auto simp: clear_blacklist_def split: option.splits if_splits)

lemma init_dom: "dom (blacklists (BlacklistManager_init f w)) = set categories"
  by (cases f) (auto simp: BlacklistManager_init_def load_blacklists_def empty_blacklists_def
      categories_def)

lemma manager_reachable_dom: "manager_reachable m \<Longrightarrow> dom (blacklists m) = set categories"
proof (induction rule: manager_reachable.induct)
  case (loaded f w)
  show ?case by (rule init_dom)
next
  case (added m c a m')
  then show ?case by (simp add: add_to_blacklist_dom)
next
  case (removed m c a m')
  then show ?case by (simp add: remove_from_blacklist_dom)
next
  case (cleared m c)
  then show ?case by (simp add: clear_blacklist_dom)
qed

lemma manager_reachable_tokens:
  assumes "manager_reachable m"
  shows "\<exists>S. blacklists m ''tokens'' = Some S"
proof -
  have "''tokens'' \<in> dom (blacklists m)"
    using manager_reachable_dom [OF assms] by (simp add: categories_def)
  then show ?thesis by blast
qed

lemma add_to_blacklist_string:
  assumes "blacklists m c = Some S" and "a \<noteq> []"
  shows "\<exists>m'. add_to_blacklist m c (PStr a) = Inr m' \<and>
              blacklists m' = (blacklists m)(c \<mapsto> insert (lower a) S)"
  using assms by (simp add: add_to_blacklist_def)

lemma add_to_blacklist_keeps:
  assumes "add_to_blacklist m c v = Inr m'" and "blacklists m c' = Some S" and "x \<in> S"
  shows "\<exists>S'. blacklists m' c' = Some S' \<and> x \<in> S'"
  using assms by (auto simp: add_to_blacklist_def split: if_splits option.splits sum.splits)

lemma is_blacklisted_member:
  "blacklists m c = Some S \<Longrightarrow> fst (is_blacklisted m c (PStr a)) = Inr (lower a \<in> S)"
  by (simp add: is_blacklisted_def)

lemma pca_risky:
  assumes score: "1/2 \<le> va (volume_data_of d)"
    and addr: "dict_item d ''address'' = Inr (PStr a)"
    and nonempty: "a \<noteq> []"
    and verdict: "rc (PStr a) = Inr ca"
    and risky: "truthy (is_bundled ca) \<or> risk_level ca \<in> set [HIGH_RISK, DANGEROUS]"
    and tokens: "blacklists (blacklist_manager st) ''tokens'' = Some S"
  shows "fst (perform_comprehensive_analysis va rc (PDict d) st) = None \<and>
         (\<exists>S'. blacklists (blacklist_manager
                   (snd (perform_comprehensive_analysis va rc (PDict d) st))) ''tokens'' = Some S'
               \<and> lower a \<in> S')"
proof -
  let ?st1 = "called (CheckContract (PStr a)) st"
  have m: "blacklist_manager ?st1 = blacklist_manager st" by (simp add: called_def)
  obtain m1 where add1: "add_to_blacklist (blacklist_manager ?st1) ''tokens'' (PStr a) = Inr m1"
    and bl1: "blacklists m1 = (blacklists (blacklist_manager st))(''tokens'' \<mapsto> insert (lower a) S)"
    using add_to_blacklist_string [OF tokens nonempty] unfolding m by blast
  have in1: "blacklists m1 ''tokens'' = Some (insert (lower a) S)" using bl1 by simp
  have no: "\<not> va (volume_data_of d) < 1/2" using score by simp
  show ?thesis
  proof (cases "add_to_blacklist m1 ''developers'' (dict_get d ''developer_address'' (PStr []))")
    case (Inl e)
    have "perform_comprehensive_analysis va rc (PDict d) st =
          (None, logs_line ERROR ''Comprehensive analysis error'' (?st1\<lparr>blacklist_manager := m1\<rparr>))"
      using no addr verdict risky add1 Inl
      by (simp add: perform_comprehensive_analysis_def analysis_try_def Let_def)
    then show ?thesis using in1 by (simp add: logs_line_def)
  next
    case (Inr m2)
    have "perform_comprehensive_analysis va rc (PDict d) st =
          (None, ?st1\<lparr>blacklist_manager := m2, logger := logger ?st1 @ [security_concerns]\<rparr>)"
      using no addr verdict risky add1 Inr
      by (simp add: perform_comprehensive_analysis_def analysis_try_def Let_def)
    moreover have "\<exists>S'. blacklists m2 ''tokens'' = Some S' \<and> lower a \<in> S'"
      using add_to_blacklist_keeps [OF Inr in1] by simp
    ultimately show ?thesis by simp
  qed
qed

text \<open>
  Claim C1, amended. For every token record that passes the volume check (score at
  least 0.5) and whose address is a non-empty string, if the classifier returns an
  analysis that is bundled or has risk level HIGH_RISK or DANGEROUS, then
  \<open>perform_comprehensive_analysis\<close> returns \<open>None\<close> and afterwards the lowercased
  address is in the \<open>tokens\<close> blacklist, so \<open>is_blacklisted('tokens', address)\<close> is
  true. The manager is any one reachable from its constructor.
\<close>

theorem risk_reject_blacklists_token:
  assumes "1/2 \<le> va (volume_data_of d)"
    and "dict_item d ''address'' = Inr (PStr a)"
    and "a \<noteq> []"
    and "rc (PStr a) = Inr ca"
    and "truthy (is_bundled ca) \<or> risk_level ca \<in> set [HIGH_RISK, DANGEROUS]"
    and "manager_reachable (blacklist_manager st)"
  shows "fst (perform_comprehensive_analysis va rc (PDict d) st) = None \<and>
         lower a \<in> get_blacklist (blacklist_manager
            (snd (perform_comprehensive_analysis va rc (PDict d) st))) ''tokens'' \<and>
         fst (is_blacklisted (blacklist_manager
            (snd (perform_comprehensive_analysis va rc (PDict d) st))) ''tokens'' (PStr a)) =
           Inr True"
proof -
  obtain S where S: "blacklists (blacklist_manager st) ''tokens'' = Some S"
    using manager_reachable_tokens [OF assms(6)] by blast
  from pca_risky [where va = va and rc = rc, OF assms(1-5) S]
  obtain S' where none: "fst (perform_comprehensive_analysis va rc (PDict d) st) = None"
    and S': "blacklists (blacklist_manager
                (snd (perform_comprehensive_analysis va rc (PDict d) st))) ''tokens'' = Some S'"
    and mem: "lower a \<in> S'"
    by blast
  show ?thesis
    using none S' mem by (simp add: get_blacklist_def is_blacklisted_member)
qed

theorem risk_reject_blacklists_token_witness:
  "fst (perform_comprehensive_analysis analyze_volume_script high_risk_stub (PDict risky_token)
          (CryptoSecurityFilter_init Missing True)) = None \<and>
   ''0xaaa'' \<in> get_blacklist (blacklist_manager
      (snd (perform_comprehensive_analysis analyze_volume_script high_risk_stub
              (PDict risky_token) (CryptoSecurityFilter_init Missing True)))) ''tokens'' \<and>
   fst (is_blacklisted (blacklist_manager
      (snd (perform_comprehensive_analysis analyze_volume_script high_risk_stub
              (PDict risky_token) (CryptoSecurityFilter_init Missing True))))
        ''tokens'' (PStr ''0xaaa'')) = Inr True"
proof -
  have 1: "1/2 \<le> analyze_volume_script (volume_data_of risky_token)"
    by (simp add: partial_scores)
  have 2: "dict_item risky_token ''address'' = Inr (PStr ''0xaaa'')"
    by (simp add: risky_token_def dict_item_def)
  have 3: "''0xaaa'' \<noteq> []" by simp
  have 4: "high_risk_stub (PStr ''0xaaa'') = Inr (ContractAnalysis_default (PStr ''0xaaa''))"
    by (simp add: high_risk_stub_def)
  have 5: "truthy (is_bundled (ContractAnalysis_default (PStr ''0xaaa''))) \<or>
           risk_level (ContractAnalysis_default (PStr ''0xaaa'')) \<in> set [HIGH_RISK, DANGEROUS]"
    by (simp add: ContractAnalysis_default_def)
  have 6: "manager_reachable (blacklist_manager (CryptoSecurityFilter_init Missing True))"
    by (simp add: CryptoSecurityFilter_init_def manager_reachable.loaded)
  show ?thesis
    using risk_reject_blacklists_token
      [where va = analyze_volume_script and rc = high_risk_stub, OF 1 2 3 4 5 6]
    by (simp add: lower_0xaaa)
qed

text \<open>
  Claim C1 as first stated fails on an empty address and on an address that is no
  string. Both tokens pass the volume check and the stub classifier answers
  \<open>HIGH_RISK\<close>, so both are rejected; but \<open>add_to_blacklist\<close> returns early on the
  empty address, and \<open>address.lower()\<close> raises on the number before the set is
  touched, so neither address is in the \<open>tokens\<close> blacklist afterwards.
\<close>

theorem risk_reject_blacklists_token_counterexample:
  "1/2 \<le> analyze_volume_script (volume_data_of empty_address_token) \<and>
   high_risk_stub (PStr []) = Inr (ContractAnalysis_default (PStr [])) \<and>
   risk_level (ContractAnalysis_default (PStr [])) = HIGH_RISK \<and>
   manager_reachable (blacklist_manager (CryptoSecurityFilter_init Missing True)) \<and>
   fst (perform_comprehensive_analysis analyze_volume_script high_risk_stub
          (PDict empty_address_token) (CryptoSecurityFilter_init Missing True)) = None \<and>
   fst (is_blacklisted (blacklist_manager
      (snd (perform_comprehensive_analysis analyze_volume_script high_risk_stub
              (PDict empty_address_token) (CryptoSecurityFilter_init Missing True))))
        ''tokens'' (PStr [])) = Inr False \<and>
   1/2 \<le> analyze_volume_script (volume_data_of numeric_address_token) \<and>
   fst (perform_comprehensive_analysis analyze_volume_script high_risk_stub
          (PDict numeric_address_token) (CryptoSecurityFilter_init Missing True)) = None \<and>
   get_blacklist (blacklist_manager
      (snd (perform_comprehensive_analysis analyze_volume_script high_risk_stub
              (PDict numeric_address_token) (CryptoSecurityFilter_init Missing True))))
        ''tokens'' = {} \<and>
   fst (is_blacklisted (blacklist_manager
      (snd (perform_comprehensive_analysis analyze_volume_script high_risk_stub
              (PDict numeric_address_token) (CryptoSecurityFilter_init Missing True))))
        ''tokens'' (PInt 5)) = Inl AttributeError"
proof -
  let ?st = "CryptoSecurityFilter_init Missing True"
  have reach: "manager_reachable (blacklist_manager ?st)"
    by (simp add: CryptoSecurityFilter_init_def manager_reachable.loaded)
  have ea: "dict_item empty_address_token ''address'' = Inr (PStr [])"
    by (simp add: empty_address_token_def dict_item_def)
  have ed: "dict_get empty_address_token ''developer_address'' (PStr []) = PStr []"
    by (simp add: empty_address_token_def dict_get_def)
  have na: "dict_item numeric_address_token ''address'' = Inr (PInt 5)"
    by (simp add: numeric_address_token_def dict_item_def)
  have e: "perform_comprehensive_analysis analyze_volume_script high_risk_stub
             (PDict empty_address_token) ?st =
           (None, ?st\<lparr>blacklist_manager :=
                      (blacklist_manager ?st)\<lparr>manager_log :=
                         manager_log (blacklist_manager ?st) @
                         [(WARNING, ''Attempted to add empty address to blacklist''),
                          (WARNING, ''Attempted to add empty address to blacklist'')]\<rparr>,
                    logger := [security_concerns],
                    calls := [CheckContract (PStr [])]\<rparr>)"
    by (simp add: perform_comprehensive_analysis_def analysis_try_def partial_scores
        high_risk_stub_def ContractAnalysis_default_def called_def add_to_blacklist_def
        manager_logs_def CryptoSecurityFilter_init_def Let_def ea ed)
  have n: "perform_comprehensive_analysis analyze_volume_script high_risk_stub
             (PDict numeric_address_token) ?st =
           (None, ?st\<lparr>logger := [(ERROR, ''Comprehensive analysis error'')],
                    calls := [CheckContract (PInt 5)]\<rparr>)"
    by (simp add: perform_comprehensive_analysis_def analysis_try_def partial_scores
        high_risk_stub_def ContractAnalysis_default_def called_def add_to_blacklist_def
        logs_line_def CryptoSecurityFilter_init_def BlacklistManager_init_def
        load_blacklists_def empty_blacklists_def Let_def na)
  show ?thesis
    unfolding e n using reach
    by (simp add: partial_scores high_risk_stub_def ContractAnalysis_default_def
        is_blacklisted_def get_blacklist_def CryptoSecurityFilter_init_def
        BlacklistManager_init_def load_blacklists_def empty_blacklists_def lower_def)
qed

section \<open>The batch entry points\<close>







section \<open>The advisory risk level\<close>

text \<open>
  Claim C9. \<open>_calculate_risk_level\<close> returns \<open>MEDIUM_RISK\<close> for every pair of
  arguments, and every record \<open>analyze_token\<close> returns carries \<open>'risk_level'\<close>
  equal to \<open>'MEDIUM_RISK'\<close>, whatever the API clients answered.
\<close>

theorem advisory_risk_level_constant:
  "calculate_risk_level api_results volume_score = MEDIUM_RISK \<and>
   (\<forall>out. fst (analyze_token apis va token st) = Inr (Some out) \<longrightarrow>
      dict_item out ''risk_level'' = Inr (PStr ''MEDIUM_RISK''))"
proof (intro conjI allI impI)
  show "calculate_risk_level api_results volume_score = MEDIUM_RISK"
    by (simp add: calculate_risk_level_def)
next
  fix out
  assume "fst (analyze_token apis va token st) = Inr (Some out)"
  then obtain d r where "out = analysis_result d r (va (volume_data_of d))"
    using analyze_token_Some_result by blast
  then show "dict_item out ''risk_level'' = Inr (PStr ''MEDIUM_RISK'')"
    by (simp add: analysis_result_def dict_item_update calculate_risk_level_def)
qed

theorem advisory_risk_level_constant_witness:
  "fst (analyze_token initialize_apis analyze_volume (PDict good_token)
          (CryptoSecurityFilter_init Missing True)) =
     Inr (Some (good_token @ [(''api_analysis'', PDict []), (''volume_score'', PFloat 1),
                        (''risk_level'', PStr ''MEDIUM_RISK'')])) \<and>
   dict_item (good_token @ [(''api_analysis'', PDict []), (''volume_score'', PFloat 1),
                        (''risk_level'', PStr ''MEDIUM_RISK'')]) ''risk_level'' =
     Inr (PStr ''MEDIUM_RISK'')"
proof -
  let ?st = "CryptoSecurityFilter_init Missing True"
  have agood: "fst (analyze_token initialize_apis analyze_volume (PDict good_token) ?st) =
      Inr (Some (good_token @ [(''api_analysis'', PDict []), (''volume_score'', PFloat 1),
                        (''risk_level'', PStr ''MEDIUM_RISK'')]))"
    by (simp add: analyze_token_accept [OF good_token_address]
        good_token_score analysis_result_def api_manager_analyze_token_def initialize_apis_def
        calculate_risk_level_def)
       (simp add: good_token_def)
  show ?thesis
    using advisory_risk_level_constant [of "[]" 1 initialize_apis analyze_volume
        "PDict good_token" ?st] agood
    by simp
qed

section \<open>The blacklist after loading a file\<close>

text \<open>
  Claim C6 does not hold of the code. \<open>_load_blacklists\<close> takes the file's entries as
  they are, while \<open>add_to_blacklist\<close>, \<open>remove_from_blacklist\<close> and \<open>is_blacklisted\<close>
  lowercase their argument. After loading a file whose \<open>tokens\<close> list holds
  \<open>0xABC\<close>, the stored entry is not lowercase, and asking whether \<open>0xABC\<close> (or
  \<open>0xabc\<close>) is blacklisted answers \<open>False\<close> although the entry is in the set.
\<close>

theorem loaded_entry_not_lowercased:
  "manager_reachable (BlacklistManager_init mixed_case_file True) \<and>
   get_blacklist (BlacklistManager_init mixed_case_file True) ''tokens'' = {''0xABC''} \<and>
   lower ''0xABC'' \<noteq> ''0xABC'' \<and>
   fst (is_blacklisted (BlacklistManager_init mixed_case_file True) ''tokens'' (PStr ''0xABC''))
     = Inr False \<and>
   fst (is_blacklisted (BlacklistManager_init mixed_case_file True) ''tokens'' (PStr ''0xabc''))
     = Inr False"
proof -
  have bl: "blacklists (BlacklistManager_init mixed_case_file True) ''tokens'' = Some {''0xABC''}"
    by (simp add: BlacklistManager_init_def load_blacklists_def mixed_case_file_def entries_def)
  have low: "lower ''0xabc'' = ''0xabc''"
    by (simp add: lower_def lower_char_def)
  show ?thesis
    by (simp add: manager_reachable.loaded get_blacklist_def bl is_blacklisted_member
        lower_0xABC low)
qed

lemma lower_char_idem: "lower_char (lower_char c) = lower_char c"
proof -
  have "of_char (char_of (of_char c + 32 :: nat)) = (of_char c + 32 :: nat)"
    if "(of_char c :: nat) \<le> 222"
    using that by simp
  then show ?thesis
    by (auto simp: lower_char_def Let_def)
qed

lemma lower_idem: "lower (lower s) = lower s"
  by (simp add: lower_def lower_char_idem)

lemma lower_0xabc: "lower ''0xabc'' = ''0xabc''"
  by (simp add: lower_def lower_char_def)

lemma init_lowercase:
  "lowercase_file f \<Longrightarrow> lowercase_entries (blacklists (BlacklistManager_init f w))"
  by (cases f)
     (auto simp: lowercase_file_def lowercase_entries_def BlacklistManager_init_def
        load_blacklists_def empty_blacklists_def entries_def split: if_splits option.splits)

lemma apply_op_lowercase:
  "lowercase_entries (blacklists m) \<Longrightarrow> lowercase_entries (blacklists (apply_op m x))"
proof (cases x)
  case (Add c a)
  then show "lowercase_entries (blacklists m) \<Longrightarrow> ?thesis"
    by (cases a)
       (auto simp: lowercase_entries_def add_to_blacklist_def lower_idem
          split: if_splits option.splits)
next
  case (Remove c a)
  then show "lowercase_entries (blacklists m) \<Longrightarrow> ?thesis"
    by (cases a)
       (auto simp: lowercase_entries_def remove_from_blacklist_def
          split: if_splits option.splits)
next
  case (Clear c)
  then show "lowercase_entries (blacklists m) \<Longrightarrow> ?thesis"
    by (auto simp: lowercase_entries_def clear_blacklist_def split: if_splits option.splits)
qed

lemma run_ops_lowercase:
  "lowercase_entries (blacklists m) \<Longrightarrow> lowercase_entries (blacklists (run_ops m xs))"
  by (induction xs arbitrary: m) (simp_all add: apply_op_lowercase)

lemma run_ops_reachable: "manager_reachable m \<Longrightarrow> manager_reachable (run_ops m xs)"
proof (induction xs arbitrary: m)
  case Nil
  then show ?case by simp
next
  case (Cons x xs)
  have "manager_reachable (apply_op m x)"
    using Cons.prems
    by (cases x) (auto split: sum.splits intro: manager_reachable.intros)
  then show ?case using Cons.IH by simp
qed

text \<open>
  Property X1, what does hold of the blacklist store. Every manager obtained from the
  constructor by add, remove and clear calls is a reachable state. When the file holds only lowercase entries
  (or is missing or unreadable), every entry of every category set stays lowercase
  through any sequence of add, remove and clear calls, and in such a state
  \<open>is_blacklisted\<close> on a string answers whether the stored set has an entry equal to
  the argument up to case.
\<close>

theorem lowercase_file_invariant:
  assumes "lowercase_file f"
  shows "manager_reachable (run_ops (BlacklistManager_init f w) xs) \<and>
         lowercase_entries (blacklists (run_ops (BlacklistManager_init f w) xs)) \<and>
         (\<forall>c S a. blacklists (run_ops (BlacklistManager_init f w) xs) c = Some S \<longrightarrow>
            fst (is_blacklisted (run_ops (BlacklistManager_init f w) xs) c (PStr a)) =
              Inr (\<exists>b \<in> S. lower b = lower a))"
proof -
  let ?m = "run_ops (BlacklistManager_init f w) xs"
  have inv: "lowercase_entries (blacklists ?m)"
    using assms by (intro run_ops_lowercase init_lowercase)
  have "(lower a \<in> S) = (\<exists>b \<in> S. lower b = lower a)" if "blacklists ?m c = Some S" for c S a
  proof
    assume "lower a \<in> S"
    moreover have "lower (lower a) = lower a" by (rule lower_idem)
    ultimately show "\<exists>b \<in> S. lower b = lower a" by blast
  next
    assume "\<exists>b \<in> S. lower b = lower a"
    then obtain b where b: "b \<in> S" "lower b = lower a" by blast
    then have "lower b = b" using inv that by (auto simp: lowercase_entries_def)
    with b show "lower a \<in> S" by simp
  qed
  moreover have "manager_reachable ?m"
    by (intro run_ops_reachable manager_reachable.loaded)
  ultimately show ?thesis using inv by (simp add: is_blacklisted_member)
qed

theorem lowercase_file_invariant_witness:
  "lowercase_file Missing \<and>
   blacklists (run_ops (BlacklistManager_init Missing True)
      [Add ''tokens'' (PStr ''0xABC''), Add ''tokens'' (PStr ''0xabc'')]) ''tokens'' =
     Some {''0xabc''} \<and>
   fst (is_blacklisted (run_ops (BlacklistManager_init Missing True)
      [Add ''tokens'' (PStr ''0xABC''), Add ''tokens'' (PStr ''0xabc'')]) ''tokens''
        (PStr ''0xABC'')) = Inr True"
proof -
  let ?xs = "[Add ''tokens'' (PStr ''0xABC''), Add ''tokens'' (PStr ''0xabc'')]"
  have f: "lowercase_file Missing" by (simp add: lowercase_file_def)
  have bl: "blacklists (run_ops (BlacklistManager_init Missing True) ?xs) ''tokens'' =
            Some {''0xabc''}"
    by (simp add: add_to_blacklist_def BlacklistManager_init_def load_blacklists_def
        empty_blacklists_def lower_0xABC lower_0xabc)
  show ?thesis
    using f bl lowercase_file_invariant [OF f, of True ?xs]
    by (simp add: lower_0xABC lower_0xabc)
qed

section \<open>Exceptions at the pipeline boundary\<close>

text \<open>
  Claim C4 does not hold of \<open>analyze_token\<close>. \<open>perform_comprehensive_analysis\<close>
  returns \<open>None\<close> for \<open>None\<close>, as its test expects. In \<open>analyze_token\<close> the
  subscript \<open>token_data['address']\<close> raises on \<open>None\<close>, and the handler then
  evaluates \<open>token_data.get('address', 'N/A')\<close> for its log message, which raises
  \<open>AttributeError\<close> inside the handler: the exception reaches the caller, and
  \<open>analyze_tokens\<close> passes it on.
\<close>

theorem analyze_token_none_raises:
  "perform_comprehensive_analysis va rc PNone st =
     (None, logs_line ERROR ''Comprehensive analysis error'' st) \<and>
   analyze_token apis va PNone st = (Inl AttributeError, st) \<and>
   analyze_tokens apis va [PNone] st = (Inl AttributeError, st)"
  by (simp add: perform_comprehensive_analysis_def analysis_try_def analyze_token_def
      analyze_token_try_def analyze_tokens_def)

section \<open>The classifier fails closed\<close>

text \<open>
  Claim C7. \<open>check_contract\<close> returns an analysis for every address and never an
  exception. Whenever its \<open>try\<close> block fails (the request raises, or the response
  lacks a field or names no risk level), the result is the default analysis: the
  given address, \<open>HIGH_RISK\<close>, no issues, the three flags false and score 0, and an
  error line is logged. When the block succeeds its analysis is returned, for the
  same address. On the simulated response of the script the block always succeeds,
  with \<open>LOW_RISK\<close>.
\<close>

theorem check_contract_fails_closed:
  "(\<forall>e. check_contract_try api_request a = Inl e \<longrightarrow>
      check_contract_with api_request a =
        (\<lparr>token_address = a, risk_level = HIGH_RISK, is_honeypot = PBool False,
          is_verified = PBool False, is_bundled = PBool False,
          volume_legitimacy_score = 0, potential_issues = PList []\<rparr>,
         [(ERROR, ''RugCheck API error'')])) \<and>
   (\<forall>analysis. check_contract_try api_request a = Inr analysis \<longrightarrow>
      check_contract_with api_request a = (analysis, [])) \<and>
   token_address (fst (check_contract_with api_request a)) = a \<and>
   check_contract a =
     (\<lparr>token_address = a, risk_level = LOW_RISK, is_honeypot = PBool False,
       is_verified = PBool True, is_bundled = PBool False,
       volume_legitimacy_score = 0, potential_issues = PList []\<rparr>, [])"
proof (intro conjI allI impI)
  fix e assume "check_contract_try api_request a = Inl e"
  then show "check_contract_with api_request a =
        (\<lparr>token_address = a, risk_level = HIGH_RISK, is_honeypot = PBool False,
          is_verified = PBool False, is_bundled = PBool False,
          volume_legitimacy_score = 0, potential_issues = PList []\<rparr>,
         [(ERROR, ''RugCheck API error'')])"
    by (simp add: check_contract_with_def ContractAnalysis_default_def)
next
  fix analysis assume "check_contract_try api_request a = Inr analysis"
  then show "check_contract_with api_request a = (analysis, [])"
    by (simp add: check_contract_with_def)
next
  show "token_address (fst (check_contract_with api_request a)) = a"
  proof (cases "check_contract_try api_request a")
    case (Inl e)
    then show ?thesis by (simp add: check_contract_with_def ContractAnalysis_default_def)
  next
    case (Inr analysis)
    then have "token_address analysis = a"
      by (auto simp: check_contract_try_def analysis_of_response_def split: sum.splits)
    with Inr show ?thesis by (simp add: check_contract_with_def)
  qed
next
  show "check_contract a =
     (\<lparr>token_address = a, risk_level = LOW_RISK, is_honeypot = PBool False,
       is_verified = PBool True, is_bundled = PBool False,
       volume_legitimacy_score = 0, potential_issues = PList []\<rparr>, [])"
    by (rule check_contract_low_risk)
qed

theorem check_contract_fails_closed_witness:
  "check_contract_try failing_request (PStr ''0xInvalidAddress'') = Inl ApiError \<and>
   check_contract_with failing_request (PStr ''0xInvalidAddress'') =
     (\<lparr>token_address = PStr ''0xInvalidAddress'', risk_level = HIGH_RISK,
       is_honeypot = PBool False, is_verified = PBool False, is_bundled = PBool False,
       volume_legitimacy_score = 0, potential_issues = PList []\<rparr>,
      [(ERROR, ''RugCheck API error'')]) \<and>
   check_contract_try unknown_risk_request (PStr ''0xInvalidAddress'') = Inl KeyError \<and>
   fst (check_contract_with unknown_risk_request (PStr ''0xInvalidAddress'')) =
     \<lparr>token_address = PStr ''0xInvalidAddress'', risk_level = HIGH_RISK,
       is_honeypot = PBool False, is_verified = PBool False, is_bundled = PBool False,
       volume_legitimacy_score = 0, potential_issues = PList []\<rparr>"
proof -
  have f: "check_contract_try failing_request (PStr ''0xInvalidAddress'') = Inl ApiError"
    by (simp add: check_contract_try_def failing_request_def)
  have u: "check_contract_try unknown_risk_request (PStr ''0xInvalidAddress'') = Inl KeyError"
    by (simp add: check_contract_try_def unknown_risk_request_def analysis_of_response_def
        dict_item_def risk_of_name_def)
  show ?thesis
    using f u
      check_contract_fails_closed [of failing_request "PStr ''0xInvalidAddress''"]
      check_contract_fails_closed [of unknown_risk_request "PStr ''0xInvalidAddress''"]
    by simp
qed

end
